theory Spec2Isabelle
  imports Complex_Main "HOL-Library.Sublist"
begin

section \<open>PDF Compressor: helper discovery and managed Ghostscript invocation\<close>

text \<open>
  A shallow embedding of \<^verbatim>\<open>src/pdf_compressor.py\<close> (class \<^verbatim>\<open>PDFCompressorApp\<close>).

  Conventions of the model:
  \<^item> Python \<^verbatim>\<open>bytes\<close> are byte lists (\<open>string\<close>); a Python \<^verbatim>\<open>str\<close> is represented by
    its UTF-8 encoding, so an ASCII text is the same list under both readings.
  \<^item> A Python list element that may be \<^verbatim>\<open>None\<close> is a \<open>string option\<close>.
  \<^item> An exception is a value: a function that may raise returns a sum whose \<open>Inl\<close> side
    is the exception.
  \<^item> The host (interpreter, operating system, file system, dialogs) is a record of
    functions that the program calls; nothing about it is assumed.
  \<^item> Tk widgets are fields of the application state; \<^verbatim>\<open>root.after(0, f, ...)\<close> appends
    the callback to the event queue \<open>after_queue\<close>; \<^verbatim>\<open>messagebox\<close> calls are appended to
    \<open>dialogs\<close>.
  \<^item> Python floats in the size report are exact rationals.
\<close>

subsection \<open>Exceptions and the host\<close>

datatype py_exception =
    CalledProcessError
  | FileNotFoundError
  | PermissionError
  | OSError
  | UnicodeDecodeError
  | ZeroDivisionError
  | TypeError

text \<open>
  What \<^verbatim>\<open>subprocess.run(command, stdout=PIPE, stderr=PIPE, ...)\<close> does before
  \<^verbatim>\<open>check=True\<close> is applied: the process ran and exited with a return code and the two
  captured streams, or it could not be launched and an exception with the text
  \<^verbatim>\<open>str(e)\<close> was raised.
\<close>

datatype run_result =
    Completed int string string
  | LaunchFailed string

record host =
  platform :: string
    \<comment> \<open>\<^verbatim>\<open>sys.platform\<close>\<close>
  environ :: "string \<rightharpoonup> string"
    \<comment> \<open>\<^verbatim>\<open>os.environ\<close>\<close>
  check_output :: "string list \<Rightarrow> py_exception + string"
    \<comment> \<open>\<^verbatim>\<open>subprocess.check_output\<close>: the captured standard output, or the exception raised\<close>
  path_exists :: "string \<Rightarrow> bool"
    \<comment> \<open>\<^verbatim>\<open>os.path.exists\<close>\<close>
  isdir :: "string \<Rightarrow> bool"
    \<comment> \<open>\<^verbatim>\<open>os.path.isdir\<close>\<close>
  path_join :: "string \<Rightarrow> string \<Rightarrow> string"
    \<comment> \<open>\<^verbatim>\<open>os.path.join\<close>\<close>
  walk :: "string \<Rightarrow> (string \<times> string list \<times> string list) list"
    \<comment> \<open>\<^verbatim>\<open>os.walk\<close>: the triples (root, dirs, files) in the order they are yielded\<close>
  getsize :: "string \<Rightarrow> py_exception + nat"
    \<comment> \<open>\<^verbatim>\<open>os.path.getsize\<close>\<close>
  run :: "string option list \<Rightarrow> run_result"
    \<comment> \<open>\<^verbatim>\<open>subprocess.run\<close> with both streams piped\<close>

subsection \<open>Application state\<close>

datatype callback = OnSuccess | OnError string

datatype dialog =
    ShowError string string
  | ShowWarning string string
  | ShowSuccessInfo rat rat rat
    \<comment> \<open>\<^verbatim>\<open>messagebox.showinfo("Success", ...)\<close> with the original size, the compressed size
        (both in MB) and the reduction (in percent) that the text is formatted from\<close>

record app =
  input_pdf_path :: string
  output_pdf_path :: string
  compression_level :: string
  ghostscript_path :: "string option"
  button_enabled :: bool
    \<comment> \<open>\<^verbatim>\<open>compress_button\<close>: \<^verbatim>\<open>tk.NORMAL\<close> is \<open>True\<close>, \<^verbatim>\<open>tk.DISABLED\<close> is \<open>False\<close>\<close>
  status_text :: string
    \<comment> \<open>the text of \<^verbatim>\<open>status_label\<close>\<close>
  progress_packed :: bool
  progress_running :: bool
  dialogs :: "dialog list"
  threads_started :: nat
    \<comment> \<open>how many times \<^verbatim>\<open>threading.Thread(target=self.run_compression).start()\<close> ran\<close>
  after_queue :: "callback list"

text \<open>The keys of the dictionary \<^verbatim>\<open>levels\<close> in \<^verbatim>\<open>create_widgets\<close>: the values a radio button
  can store in \<^verbatim>\<open>compression_level\<close>.\<close>

definition levels :: "string list" where
  "levels = [''screen'', ''ebook'', ''printer'', ''prepress'']"

subsection \<open>The Ghostscript command line\<close>

text \<open>The list \<^verbatim>\<open>command\<close> of \<^verbatim>\<open>run_compression\<close>.\<close>

definition command :: "app \<Rightarrow> string option list" where
  "command a =
     [ghostscript_path a,
      Some ''-sDEVICE=pdfwrite'',
      Some ''-dCompatibilityLevel=1.4'',
      Some (''-dPDFSETTINGS=/'' @ compression_level a),
      Some ''-dNOPAUSE'',
      Some ''-dQUIET'',
      Some ''-dBATCH'',
      Some (''-sOutputFile='' @ output_pdf_path a),
      Some (input_pdf_path a)]"

text \<open>An argument that sets the quality preset: it starts with \<^verbatim>\<open>-dPDFSETTINGS=\<close>.\<close>

definition is_preset_flag :: "string option \<Rightarrow> bool" where
  "is_preset_flag arg =
     (case arg of None \<Rightarrow> False | Some s \<Rightarrow> take 14 s = ''-dPDFSETTINGS='')"

subsection \<open>Python's \<^verbatim>\<open>bytes.strip\<close> and \<^verbatim>\<open>bytes.decode\<close>\<close>

definition byte :: "char \<Rightarrow> nat" where
  "byte c = of_char c"

text \<open>\<^verbatim>\<open>bytes.strip()\<close> removes ASCII whitespace (space, tab, newline, carriage return,
  vertical tab, form feed) from both ends.\<close>

definition is_space :: "char \<Rightarrow> bool" where
  "is_space c = (byte c = 0x20 \<or> (0x09 \<le> byte c \<and> byte c \<le> 0x0D))"

definition strip :: "string \<Rightarrow> string" where
  "strip bs = rev (dropWhile is_space (rev (dropWhile is_space bs)))"

text \<open>
  The UTF-8 codec of CPython. \<open>utf8_first b bs\<close> looks at the sequence that starts with the
  byte \<open>b\<close>: \<open>WellFormed n\<close> when \<open>b\<close> and the next \<open>n\<close> bytes encode one code point,
  \<open>IllFormed n\<close> when \<open>b\<close> and the next \<open>n\<close> bytes are what the codec reports as one error
  (an invalid start byte, the bytes before an invalid continuation byte, or a sequence cut
  off by the end of the data).
\<close>

datatype utf8_step = WellFormed nat | IllFormed nat

definition is_continuation :: "char \<Rightarrow> bool" where
  "is_continuation c = (0x80 \<le> byte c \<and> byte c < 0xC0)"

definition utf8_first :: "char \<Rightarrow> string \<Rightarrow> utf8_step" where
  "utf8_first b bs =
     (if byte b < 0x80 then WellFormed 0
      else if byte b < 0xC2 then IllFormed 0
      else if byte b < 0xE0 then
        (case bs of
           [] \<Rightarrow> IllFormed 0
         | c # _ \<Rightarrow> if is_continuation c then WellFormed 1 else IllFormed 0)
      else if byte b < 0xF0 then
        (case bs of
           [] \<Rightarrow> IllFormed 0
         | c # cs \<Rightarrow>
             if \<not> is_continuation c
                \<or> (if byte c < 0xA0 then byte b = 0xE0 else byte b = 0xED)
             then IllFormed 0
             else (case cs of
                     [] \<Rightarrow> IllFormed 1
                   | d # _ \<Rightarrow> if is_continuation d then WellFormed 2 else IllFormed 1))
      else if byte b < 0xF5 then
        (case bs of
           [] \<Rightarrow> IllFormed 0
         | c # cs \<Rightarrow>
             if \<not> is_continuation c
                \<or> (if byte c < 0x90 then byte b = 0xF0 else byte b = 0xF4)
             then IllFormed 0
             else (case cs of
                     [] \<Rightarrow> IllFormed 1
                   | d # ds \<Rightarrow>
                       if \<not> is_continuation d then IllFormed 1
                       else (case ds of
                               [] \<Rightarrow> IllFormed 2
                             | e # _ \<Rightarrow>
                                 if is_continuation e then WellFormed 3 else IllFormed 2)))
      else IllFormed 0)"

text \<open>The error handlers the program uses: \<^verbatim>\<open>decode()\<close> is strict, \<^verbatim>\<open>decode('utf-8', 'ignore')\<close>
  leaves the ill-formed bytes out of the result.\<close>

datatype errors_mode = Strict | Ignore

function decode :: "errors_mode \<Rightarrow> string \<Rightarrow> py_exception + string" where
  "decode m [] = Inr []"
| "decode m (b # bs) =
     (case utf8_first b bs of
        WellFormed n \<Rightarrow>
          (case decode m (drop n bs) of
             Inl e \<Rightarrow> Inl e
           | Inr s \<Rightarrow> Inr (b # take n bs @ s))
      | IllFormed n \<Rightarrow>
          (case m of
             Strict \<Rightarrow> Inl UnicodeDecodeError
           | Ignore \<Rightarrow> decode m (drop n bs)))"
  by pat_completeness auto
termination
  by (relation "measure (\<lambda>(m, bs). length bs)") auto

subsection \<open>\<^verbatim>\<open>find_ghostscript\<close>\<close>

definition gs_names :: "string list" where
  "gs_names = [''gswin64c.exe'', ''gswin32c.exe'', ''gs.exe'']"

text \<open>The expression \<^verbatim>\<open>subprocess.check_output(['where', name]).strip().decode()\<close>.\<close>

definition where_path :: "host \<Rightarrow> string \<Rightarrow> py_exception + string" where
  "where_path h name =
     (case check_output h [''where'', name] of
        Inl e \<Rightarrow> Inl e
      | Inr out \<Rightarrow> decode Strict (strip out))"

text \<open>The clause \<^verbatim>\<open>except (subprocess.CalledProcessError, FileNotFoundError)\<close>.\<close>

definition caught :: "py_exception \<Rightarrow> bool" where
  "caught e = (e = CalledProcessError \<or> e = FileNotFoundError)"

text \<open>
  The functions of the locator return a pair: the commands they have run, in order, and
  their result. \<open>ran cmd r\<close> puts \<open>cmd\<close> in front of what \<open>r\<close> ran.
\<close>

definition ran :: "string list \<Rightarrow> string list list \<times> 'a \<Rightarrow> string list list \<times> 'a" where
  "ran cmd r = (cmd # fst r, snd r)"

text \<open>
  The first loop, \<^verbatim>\<open>for name in gs_names\<close>. The result \<open>Inr (Some path)\<close> is
  \<^verbatim>\<open>return path\<close>, \<open>Inr None\<close> is the end of the loop without a return, and \<open>Inl e\<close> is an
  exception that the \<^verbatim>\<open>except\<close> clause does not catch.
\<close>

fun path_loop :: "host \<Rightarrow> string list \<Rightarrow> string list list \<times> (py_exception + string option)" where
  "path_loop h [] = ([], Inr None)"
| "path_loop h (name # names) =
     (if platform h = ''win32'' then
        (case where_path h name of
           Inl e \<Rightarrow>
             if caught e then ran [''where'', name] (path_loop h names)
             else ([[''where'', name]], Inl e)
         | Inr path \<Rightarrow>
             if path_exists h path then ([[''where'', name]], Inr (Some path))
             else ran [''where'', name] (path_loop h names))
      else path_loop h names)"

definition program_files :: "host \<Rightarrow> string" where
  "program_files h =
     (case environ h ''ProgramFiles'' of
        None \<Rightarrow> ''C:'' @ [CHR 0x5C] @ ''Program Files''
      | Some v \<Rightarrow> v)"

definition gs_dirs :: "host \<Rightarrow> string list" where
  "gs_dirs h = [path_join h (program_files h) ''gs'']"

text \<open>The innermost loop, \<^verbatim>\<open>for name in gs_names: if name in files: return ...\<close>.\<close>

fun scan_names :: "host \<Rightarrow> string \<Rightarrow> string list \<Rightarrow> string list \<Rightarrow> string option" where
  "scan_names h dirpath files [] = None"
| "scan_names h dirpath files (name # names) =
     (if name \<in> set files then Some (path_join h dirpath name)
      else scan_names h dirpath files names)"

text \<open>The loop \<^verbatim>\<open>for root, _, files in os.walk(gs_dir)\<close>; the variable \<^verbatim>\<open>root\<close> is \<open>dirpath\<close> here.\<close>

fun scan_walk :: "host \<Rightarrow> (string \<times> string list \<times> string list) list \<Rightarrow> string option" where
  "scan_walk h [] = None"
| "scan_walk h ((dirpath, dirnames, files) # rest) =
     (case scan_names h dirpath files gs_names of
        Some p \<Rightarrow> Some p
      | None \<Rightarrow> scan_walk h rest)"

text \<open>The loop \<^verbatim>\<open>for gs_dir in gs_dirs\<close>.\<close>

fun scan_dirs :: "host \<Rightarrow> string list \<Rightarrow> string option" where
  "scan_dirs h [] = None"
| "scan_dirs h (gs_dir # rest) =
     (if isdir h gs_dir then
        (case scan_walk h (walk h gs_dir) of
           Some p \<Rightarrow> Some p
         | None \<Rightarrow> scan_dirs h rest)
      else scan_dirs h rest)"

definition find_ghostscript :: "host \<Rightarrow> string list list \<times> (py_exception + string option)" where
  "find_ghostscript h =
     (case path_loop h gs_names of
        (cmds, Inl e) \<Rightarrow> (cmds, Inl e)
      | (cmds, Inr (Some path)) \<Rightarrow> (cmds, Inr (Some path))
      | (cmds, Inr None) \<Rightarrow> (cmds, Inr (scan_dirs h (gs_dirs h))))"

text \<open>
  The two ways in which the body of the first loop goes on to the next name on win32: the
  lookup command raises an exception of the \<^verbatim>\<open>except\<close> clause, or it prints a path that decodes
  and that \<^verbatim>\<open>os.path.exists\<close> does not find.
\<close>

definition probe_not_found :: "host \<Rightarrow> string \<Rightarrow> bool" where
  "probe_not_found h name =
     (case check_output h [''where'', name] of
        Inl e \<Rightarrow> caught e
      | Inr out \<Rightarrow>
          (case decode Strict (strip out) of
             Inl e \<Rightarrow> False
           | Inr path \<Rightarrow> \<not> path_exists h path))"

subsection \<open>The matches of the directory scan\<close>

text \<open>All matches of a directory walk: directories in the order of the walk, and within
  one directory the candidate names in their order.\<close>

definition walk_matches :: "host \<Rightarrow> (string \<times> string list \<times> string list) list \<Rightarrow> string list" where
  "walk_matches h entries =
     concat (map (\<lambda>(dirpath, dirnames, files).
                    map (path_join h dirpath) (filter (\<lambda>name. name \<in> set files) gs_names))
                 entries)"

definition dir_matches :: "host \<Rightarrow> string list" where
  "dir_matches h =
     concat (map (\<lambda>gs_dir. if isdir h gs_dir then walk_matches h (walk h gs_dir) else [])
                 (gs_dirs h))"

definition first_of :: "'a list \<Rightarrow> 'a option" where
  "first_of xs = (case xs of [] \<Rightarrow> None | x # _ \<Rightarrow> Some x)"

subsection \<open>Starting a job\<close>

definition show_ghostscript_warning :: "app \<Rightarrow> app" where
  "show_ghostscript_warning a =
     a\<lparr>dialogs := dialogs a @
        [ShowWarning ''Ghostscript Not Found''
           (''Ghostscript is required for PDF compression but could not be found.\<newline>\<newline>''
            @ ''Please install Ghostscript and ensure it's added to your system's PATH.\<newline>\<newline>''
            @ ''You can download it from: ghostscript.com/releases'')]\<rparr>"

text \<open>
  \<^verbatim>\<open>start_compression_thread\<close>. The argument \<open>output_path\<close> is what
  \<^verbatim>\<open>filedialog.asksaveasfilename\<close> returns when it is asked (the empty string when the user
  cancels). \<^verbatim>\<open>not self.ghostscript_path\<close> holds for \<^verbatim>\<open>None\<close> and for the empty string.
\<close>

definition start_compression_thread :: "string \<Rightarrow> app \<Rightarrow> app" where
  "start_compression_thread output_path a =
     (if input_pdf_path a = [] then
        a\<lparr>dialogs := dialogs a @
           [ShowError ''Error'' ''Please select an input PDF file first.'']\<rparr>
      else if ghostscript_path a = None \<or> ghostscript_path a = Some [] then
        show_ghostscript_warning a
      else if output_path = [] then
        a\<lparr>status_text := ''Save cancelled. Ready.''\<rparr>
      else
        a\<lparr>output_pdf_path := output_path,
          button_enabled := False,
          status_text := ''Compressing... Please wait.'',
          progress_packed := True,
          progress_running := True,
          threads_started := Suc (threads_started a)\<rparr>)"

subsection \<open>Running a job\<close>

text \<open>
  \<^verbatim>\<open>run_compression\<close>, the body of the background thread. With \<^verbatim>\<open>check=True\<close> a return code
  other than zero raises \<^verbatim>\<open>CalledProcessError\<close>, whose handler decodes the captured error
  stream; any other exception of \<^verbatim>\<open>subprocess.run\<close> reaches \<^verbatim>\<open>except Exception\<close>. An
  exception raised inside a handler would leave the function: that is the result \<open>Inl\<close>.
\<close>

definition run_compression :: "host \<Rightarrow> app \<Rightarrow> py_exception + app" where
  "run_compression h a =
     (case run h (command a) of
        Completed returncode out err \<Rightarrow>
          if returncode = 0 then Inr (a\<lparr>after_queue := after_queue a @ [OnSuccess]\<rparr>)
          else
            (case decode Ignore err of
               Inl e \<Rightarrow> Inl e
             | Inr text \<Rightarrow>
                 Inr (a\<lparr>after_queue := after_queue a @
                        [OnError (''Ghostscript Error:\<newline>'' @ text)]\<rparr>))
      | LaunchFailed msg \<Rightarrow> Inr (a\<lparr>after_queue := after_queue a @ [OnError msg]\<rparr>))"

subsection \<open>Handling the outcome\<close>

text \<open>
  \<^verbatim>\<open>on_compression_success\<close>. An exception leaves the widgets as they were when it was
  raised: \<open>Inl (e, a')\<close> is the exception together with that state.
\<close>

definition on_compression_success :: "host \<Rightarrow> app \<Rightarrow> py_exception \<times> app + app" where
  "on_compression_success h a =
     (let a1 = a\<lparr>progress_running := False,
                  progress_packed := False,
                  button_enabled := True,
                  status_text := ''Compression successful!''\<rparr>
      in case getsize h (input_pdf_path a1) of
           Inl e \<Rightarrow> Inl (e, a1)
         | Inr input_bytes \<Rightarrow>
             (case getsize h (output_pdf_path a1) of
                Inl e \<Rightarrow> Inl (e, a1)
              | Inr output_bytes \<Rightarrow>
                  (let original_size = of_nat input_bytes / (1024 * 1024);
                       compressed_size = of_nat output_bytes / (1024 * 1024)
                   in if original_size = 0 then Inl (ZeroDivisionError, a1)
                      else
                        (let reduction = 100 - (compressed_size / original_size * 100)
                         in Inr (a1\<lparr>dialogs := dialogs a1 @
                                     [ShowSuccessInfo original_size compressed_size reduction],
                                   status_text := ''Ready.''\<rparr>)))))"

definition on_compression_error :: "string \<Rightarrow> app \<Rightarrow> app" where
  "on_compression_error error_message a =
     a\<lparr>progress_running := False,
       progress_packed := False,
       button_enabled := True,
       status_text := ''An error occurred.'',
       dialogs := dialogs a @
         [ShowError ''Compression Failed''
            (''An error occurred during compression:\<newline>\<newline>'' @ error_message)]\<rparr>"

text \<open>What the Tk main loop does with the first callback of the queue: it takes it off the
  queue and calls it.\<close>

definition deliver :: "host \<Rightarrow> app \<Rightarrow> py_exception \<times> app + app" where
  "deliver h a =
     (case after_queue a of
        [] \<Rightarrow> Inr a
      | OnSuccess # rest \<Rightarrow> on_compression_success h (a\<lparr>after_queue := rest\<rparr>)
      | OnError error_message # rest \<Rightarrow>
          Inr (on_compression_error error_message (a\<lparr>after_queue := rest\<rparr>)))"

subsection \<open>Example states and hosts\<close>

text \<open>A state with a job in flight: what \<^verbatim>\<open>start_compression_thread\<close> leaves behind when
  the helper was found, an input was chosen and a save location was given.\<close>

definition running_app :: "string \<Rightarrow> app" where
  "running_app level =
     \<lparr>input_pdf_path = ''C:/docs/in.pdf'', output_pdf_path = ''C:/docs/out.pdf'',
      compression_level = level, ghostscript_path = Some ''C:/gs/bin/gswin64c.exe'',
      button_enabled = False, status_text = ''Compressing... Please wait.'',
      progress_packed = True, progress_running = True, dialogs = [], threads_started = 1,
      after_queue = []\<rparr>"

text \<open>A win32 host with nothing installed: \<^verbatim>\<open>where\<close> finds no candidate, there is no
  installation directory, no file exists and no process can be launched.\<close>

definition bare_host :: host where
  "bare_host =
     \<lparr>platform = ''win32'', environ = Map.empty,
      check_output = (\<lambda>cmd. Inl CalledProcessError),
      path_exists = (\<lambda>p. False),
      isdir = (\<lambda>d. False),
      path_join = (\<lambda>d name. d @ [CHR 0x5C] @ name),
      walk = (\<lambda>d. []),
      getsize = (\<lambda>p. Inl FileNotFoundError),
      run = (\<lambda>cmd. LaunchFailed ''[WinError 2] The system cannot find the file specified'')\<rparr>"

text \<open>The files of a finished job: the input and the output of \<open>running_app\<close> with the
  given sizes in bytes.\<close>

definition job_files :: "nat \<Rightarrow> nat \<Rightarrow> string \<Rightarrow> py_exception + nat" where
  "job_files input_bytes output_bytes p =
     (if p = ''C:/docs/in.pdf'' then Inr input_bytes
      else if p = ''C:/docs/out.pdf'' then Inr output_bytes
      else Inl FileNotFoundError)"

text \<open>Ghostscript exits with code 1 and the error text of the specification's example.\<close>

definition page_tree_host :: host where
  "page_tree_host = bare_host\<lparr>run := (\<lambda>cmd. Completed 1 [] ''error: invalid page tree'')\<rparr>"

text \<open>Ghostscript exits with code 0; the input has 10 MiB and the output 4 MiB.\<close>

definition ten_four_host :: host where
  "ten_four_host =
     bare_host\<lparr>run := (\<lambda>cmd. Completed 0 [] []), getsize := job_files 10485760 4194304\<rparr>"

text \<open>Ghostscript exits with code 0 on an input file of 0 bytes.\<close>

definition empty_input_host :: host where
  "empty_input_host =
     bare_host\<lparr>run := (\<lambda>cmd. Completed 0 [] []), getsize := job_files 0 581\<rparr>"

text \<open>The lookup command cannot be executed: permission denied.\<close>

definition permission_denied_host :: host where
  "permission_denied_host = bare_host\<lparr>check_output := (\<lambda>cmd. Inl PermissionError)\<rparr>"

text \<open>\<^verbatim>\<open>where gswin64c.exe\<close> prints a path in the console code page, with the byte E9 for an
  accented letter; the file exists.\<close>

definition accented_path :: string where
  "accented_path = ''C:'' @ [CHR 0x5C] @ ''Jos'' @ [CHR 0xE9] @ [CHR 0x5C] @ ''gswin64c.exe''"

definition accented_path_host :: host where
  "accented_path_host =
     bare_host\<lparr>check_output :=
                  (\<lambda>cmd. if cmd = [''where'', ''gswin64c.exe'']
                         then Inr (accented_path @ [CHR 0x0D, CHR 0x0A])
                         else Inl CalledProcessError),
               path_exists := (\<lambda>p. p = accented_path)\<rparr>"

text \<open>A host where both methods succeed: \<^verbatim>\<open>where gswin32c.exe\<close> prints an existing path, and
  the installation directory holds \<^verbatim>\<open>gswin64c.exe\<close>.\<close>

definition gs_home :: string where
  "gs_home = ''D:/Apps'' @ [CHR 0x5C] @ ''gs''"

definition installed_host :: host where
  "installed_host =
     bare_host\<lparr>check_output :=
                  (\<lambda>cmd. if cmd = [''where'', ''gswin32c.exe'']
                         then Inr (''C:/bin/gswin32c.exe'' @ [CHR 0x0D, CHR 0x0A])
                         else Inl CalledProcessError),
               path_exists :=
                  (\<lambda>p. p = ''C:/bin/gswin32c.exe''
                        \<or> p = gs_home @ [CHR 0x5C] @ ''gswin64c.exe''
                        \<or> p = gs_home @ [CHR 0x5C] @ ''readme.txt''),
               environ := [''ProgramFiles'' \<mapsto> ''D:/Apps''],
               isdir := (\<lambda>d. d = gs_home),
               walk := (\<lambda>d. if d = gs_home
                             then [(gs_home, [], [''readme.txt'', ''gswin64c.exe''])]
                             else [])\<rparr>"

text \<open>The host of \<open>installed_host\<close> without a \<^verbatim>\<open>where\<close> command, and the same host on
  another platform.\<close>

definition no_where_host :: host where
  "no_where_host = installed_host\<lparr>check_output := (\<lambda>cmd. Inl FileNotFoundError)\<rparr>"

definition posix_host :: host where
  "posix_host = installed_host\<lparr>platform := ''linux''\<rparr>"

text \<open>The lookup of the first candidate fails, the lookup of the second is denied.\<close>

definition second_denied_host :: host where
  "second_denied_host =
     bare_host\<lparr>check_output :=
                  (\<lambda>cmd. if cmd = [''where'', ''gswin64c.exe'']
                         then Inl CalledProcessError
                         else Inl PermissionError)\<rparr>"

text \<open>\<^verbatim>\<open>gs.exe\<close> is on the PATH in two places, both existing: \<^verbatim>\<open>where gs.exe\<close> prints two
  lines.\<close>

definition twice_host :: host where
  "twice_host =
     bare_host\<lparr>check_output :=
                  (\<lambda>cmd. if cmd = [''where'', ''gs.exe'']
                         then Inr (''C:/a/gs.exe'' @ [CHR 0x0D, CHR 0x0A]
                                   @ ''C:/b/gs.exe'' @ [CHR 0x0D, CHR 0x0A])
                         else Inl CalledProcessError),
               path_exists := (\<lambda>p. p = ''C:/a/gs.exe'' \<or> p = ''C:/b/gs.exe'')\<rparr>"

text \<open>A state before a job: an input is selected and the helper was found.\<close>

definition selected_app :: "string \<Rightarrow> app" where
  "selected_app input_path =
     \<lparr>input_pdf_path = input_path, output_pdf_path = [],
      compression_level = ''ebook'', ghostscript_path = Some ''C:/gs/bin/gswin64c.exe'',
      button_enabled = True, status_text = ''Selected: in.pdf'',
      progress_packed = False, progress_running = False, dialogs = [], threads_started = 0,
      after_queue = []\<rparr>"

section \<open>Lemmas\<close>

subsection \<open>Decoding\<close>

lemma decode_ignore_total: "\<exists>s. decode Ignore bs = Inr s"
proof (induction "Ignore" bs rule: decode.induct)
  case 1
  show ?case by simp
next
  case (2 b bs)
  show ?case
  proof (cases "utf8_first b bs")
    case (WellFormed n)
    with 2(1) obtain s where "decode Ignore (drop n bs) = Inr s" by blast
    with WellFormed show ?thesis by simp
  next
    case (IllFormed n)
    with 2(2) obtain s where "decode Ignore (drop n bs) = Inr s" by blast
    with IllFormed show ?thesis by simp
  qed
qed


lemma decode_ascii: "\<forall>c\<in>set bs. byte c < 0x80 \<Longrightarrow> decode m bs = Inr bs"
  by (induction bs) (simp_all add: utf8_first_def)


lemma decode_subseq: "decode m bs = Inr s \<Longrightarrow> subseq s bs"
proof (induction m bs arbitrary: s rule: decode.induct)
  case (1 m)
  then show ?case by simp
next
  case (2 m b bs)
  show ?case
  proof (cases "utf8_first b bs")
    case (WellFormed n)
    with 2(3) obtain t where t: "decode m (drop n bs) = Inr t" "s = b # take n bs @ t"
      by (auto split: sum.splits)
    from 2(1)[OF WellFormed t(1)] have "subseq t (drop n bs)" .
    then have "subseq (take n bs @ t) (take n bs @ drop n bs)"
      by (intro list_emb_append_mono) simp_all
    then have "subseq (take n bs @ t) bs" by simp
    with t(2) show ?thesis by simp
  next
    case (IllFormed n)
    with 2(3) have m: "m = Ignore" and d: "decode m (drop n bs) = Inr s"
      by (auto split: errors_mode.splits)
    from 2(2)[OF IllFormed m d] have "subseq s (drop n bs)" .
    moreover have "subseq (drop n bs) (b # bs)"
    proof -
      have "subseq (drop n bs) (take n bs @ drop n bs)"
        by (rule list_emb_append2) simp
      then have "subseq (drop n bs) bs" by simp
      then show ?thesis by (rule list_emb_Cons)
    qed
    ultimately show ?thesis by (rule subseq_order.trans)
  qed
qed



subsection \<open>The PATH loop\<close>

lemma path_loop_other_platform:
  "platform h \<noteq> ''win32'' \<Longrightarrow> path_loop h names = ([], Inr None)"
  by (induction names) simp_all

lemma path_loop_raises:
  "snd (path_loop h names) = Inl e \<Longrightarrow>
     \<not> caught e \<and> platform h = ''win32'' \<and> (\<exists>name\<in>set names. where_path h name = Inl e)"
  by (induction names) (auto simp: ran_def split: if_splits sum.splits)

lemma path_loop_skips:
  assumes "platform h = ''win32''" and "\<forall>n\<in>set pre. probe_not_found h n"
  shows "snd (path_loop h (pre @ rest)) = snd (path_loop h rest)"
  using assms(2)
proof (induction pre)
  case Nil
  show ?case by simp
next
  case (Cons n pre)
  then have "probe_not_found h n" and ih: "snd (path_loop h (pre @ rest)) = snd (path_loop h rest)"
    by simp_all
  then have "snd (path_loop h (n # pre @ rest)) = snd (path_loop h (pre @ rest))"
    using assms(1)
    by (auto simp: probe_not_found_def where_path_def ran_def split: sum.splits)
  with ih show ?case by simp
qed

lemma path_loop_found:
  assumes "platform h = ''win32''" and "check_output h [''where'', name] = Inr out"
    and "decode Strict (strip out) = Inr path" and "path_exists h path"
  shows "snd (path_loop h (name # post)) = Inr (Some path)"
  using assms by (simp add: where_path_def)

lemma path_loop_propagates:
  assumes "platform h = ''win32''" and "check_output h [''where'', name] = Inl e"
    and "\<not> caught e"
  shows "snd (path_loop h (name # post)) = Inl e"
  using assms by (simp add: where_path_def)

subsection \<open>The directory scan\<close>

lemma scan_names_first:
  "scan_names h d files names
     = first_of (map (path_join h d) (filter (\<lambda>name. name \<in> set files) names))"
  by (induction names) (simp_all add: first_of_def)

lemma first_of_append: "first_of (xs @ ys) = (case first_of xs of Some x \<Rightarrow> Some x | None \<Rightarrow> first_of ys)"
  by (cases xs) (simp_all add: first_of_def)

lemma scan_walk_first: "scan_walk h entries = first_of (walk_matches h entries)"
proof (induction entries)
  case Nil
  show ?case by (simp add: walk_matches_def first_of_def)
next
  case (Cons entry entries)
  obtain d ds files where e: "entry = (d, ds, files)" by (cases entry)
  have "walk_matches h (entry # entries)
          = map (path_join h d) (filter (\<lambda>name. name \<in> set files) gs_names) @ walk_matches h entries"
    by (simp add: walk_matches_def e)
  with Cons e show ?case
    by (simp add: first_of_append scan_names_first split: option.split)
qed

lemma scan_dirs_first:
  "scan_dirs h ds
     = first_of (concat (map (\<lambda>gs_dir. if isdir h gs_dir then walk_matches h (walk h gs_dir) else []) ds))"
proof (induction ds)
  case Nil
  show ?case by (simp add: first_of_def)
next
  case (Cons d ds)
  have "first_of ([]::string list) = None" by (simp add: first_of_def)
  with Cons show ?case
    by (simp add: first_of_append scan_walk_first split: option.split)
qed



subsection \<open>The locator\<close>

lemma first_of_None: "first_of xs = None \<longleftrightarrow> xs = []"
  by (cases xs) (simp_all add: first_of_def)

lemma first_of_Some: "first_of xs = Some x \<Longrightarrow> x \<in> set xs \<and> x = hd xs"
  by (cases xs) (simp_all add: first_of_def)

lemma set_walk_matches:
  "p \<in> set (walk_matches h entries) \<longleftrightarrow>
     (\<exists>(dirpath, dirnames, files)\<in>set entries.
        \<exists>name\<in>set gs_names. name \<in> set files \<and> p = path_join h dirpath name)"
  by (force simp: walk_matches_def image_iff)

lemma find_ghostscript_raises:
  assumes "snd (find_ghostscript h) = Inl e"
  shows "\<not> caught e \<and> platform h = ''win32'' \<and> (\<exists>name\<in>set gs_names. where_path h name = Inl e)"
proof -
  from assms have "snd (path_loop h gs_names) = Inl e"
    by (cases "path_loop h gs_names")
       (auto simp: find_ghostscript_def split: sum.splits option.splits)
  then show ?thesis by (rule path_loop_raises)
qed

lemma find_ghostscript_snd:
  "snd (find_ghostscript h)
     = (case snd (path_loop h gs_names) of
          Inl e \<Rightarrow> Inl e
        | Inr None \<Rightarrow> Inr (first_of (dir_matches h))
        | Inr (Some path) \<Rightarrow> Inr (Some path))"
  by (cases "path_loop h gs_names")
     (simp add: find_ghostscript_def scan_dirs_first dir_matches_def
        split: sum.splits option.splits)

subsection \<open>The example hosts\<close>

lemma installed_host_where:
  "where_path installed_host name
     = (if name = ''gswin32c.exe'' then Inr ''C:/bin/gswin32c.exe'' else Inl CalledProcessError)"
proof -
  have d: "decode Strict ''C:/bin/gswin32c.exe'' = Inr ''C:/bin/gswin32c.exe''"
    by (rule decode_ascii) (simp add: byte_def)
  show ?thesis
    by (simp add: where_path_def installed_host_def bare_host_def strip_def is_space_def
          byte_def d del: decode.simps)
qed

lemma installed_host_gs_dirs: "gs_dirs installed_host = [gs_home]"
  by (simp add: gs_dirs_def program_files_def installed_host_def bare_host_def gs_home_def)

lemma installed_host_walk:
  "isdir installed_host gs_home"
  "walk installed_host gs_home = [(gs_home, [], [''readme.txt'', ''gswin64c.exe''])]"
  "path_join installed_host d name = d @ [CHR 0x5C] @ name"
  by (simp_all add: installed_host_def bare_host_def)

lemma installed_host_dir_matches: "dir_matches installed_host = [gs_home @ [CHR 0x5C] @ ''gswin64c.exe'']"
  unfolding dir_matches_def installed_host_gs_dirs
  by (simp add: installed_host_walk walk_matches_def gs_names_def)


lemma dir_matches_check_output [simp]: "dir_matches (h\<lparr>check_output := f\<rparr>) = dir_matches h"
  by (simp add: dir_matches_def walk_matches_def gs_dirs_def program_files_def)

lemma dir_matches_platform [simp]: "dir_matches (h\<lparr>platform := f\<rparr>) = dir_matches h"
  by (simp add: dir_matches_def walk_matches_def gs_dirs_def program_files_def)

lemma find_ghostscript_other_platform:
  "platform h \<noteq> ''win32'' \<Longrightarrow> find_ghostscript h = ([], Inr (first_of (dir_matches h)))"
  by (simp add: find_ghostscript_def path_loop_other_platform scan_dirs_first dir_matches_def)

lemma no_where_host_where: "where_path no_where_host name = Inl FileNotFoundError"
  by (simp add: where_path_def no_where_host_def)

lemma posix_host_dir_matches:
  "dir_matches posix_host = [gs_home @ [CHR 0x5C] @ ''gswin64c.exe'']"
  unfolding posix_host_def dir_matches_platform by (rule installed_host_dir_matches)

lemma installed_host_locator:
  "snd (find_ghostscript installed_host) = Inr (Some ''C:/bin/gswin32c.exe'')"
proof -
  have "platform installed_host = ''win32''"
    and "path_exists installed_host ''C:/bin/gswin32c.exe''"
    by (simp_all add: installed_host_def bare_host_def)
  then show ?thesis
    by (simp add: find_ghostscript_def gs_names_def installed_host_where caught_def ran_def)
qed

lemma twice_host_where:
  "where_path twice_host ''gs.exe''
     = Inr (''C:/a/gs.exe'' @ [CHR 0x0D, CHR 0x0A] @ ''C:/b/gs.exe'')"
proof -
  have d: "decode Strict (''C:/a/gs.exe'' @ [CHR 0x0D, CHR 0x0A] @ ''C:/b/gs.exe'')
             = Inr (''C:/a/gs.exe'' @ [CHR 0x0D, CHR 0x0A] @ ''C:/b/gs.exe'')"
    by (rule decode_ascii) (simp add: byte_def)
  have s: "strip (''C:/a/gs.exe'' @ [CHR 0x0D, CHR 0x0A] @ ''C:/b/gs.exe'' @ [CHR 0x0D, CHR 0x0A])
             = ''C:/a/gs.exe'' @ [CHR 0x0D, CHR 0x0A] @ ''C:/b/gs.exe''"
    by (simp add: strip_def is_space_def byte_def)
  from s d show ?thesis
    unfolding where_path_def by (simp add: twice_host_def del: decode.simps)
qed

lemma twice_host_locator:
  "path_exists twice_host ''C:/a/gs.exe'' \<and> path_exists twice_host ''C:/b/gs.exe''
   \<and> snd (find_ghostscript twice_host) = Inr None"
proof -
  have w: "where_path twice_host ''gswin64c.exe'' = Inl CalledProcessError"
    "where_path twice_host ''gswin32c.exe'' = Inl CalledProcessError"
    by (simp_all add: where_path_def twice_host_def bare_host_def)
  have e: "path_exists twice_host ''C:/a/gs.exe''" "path_exists twice_host ''C:/b/gs.exe''"
    "\<not> path_exists twice_host (''C:/a/gs.exe'' @ [CHR 0x0D, CHR 0x0A] @ ''C:/b/gs.exe'')"
    "platform twice_host = ''win32''"
    by (simp_all add: twice_host_def bare_host_def)
  have "\<not> isdir twice_host d" for d
    by (simp add: twice_host_def bare_host_def)
  with e(3,4) twice_host_where have "snd (find_ghostscript twice_host) = Inr None"
    by (simp add: find_ghostscript_def gs_names_def w caught_def ran_def gs_dirs_def)
  with e(1,2) show ?thesis by (intro conjI)
qed

subsection \<open>The runner and the handlers\<close>

lemma run_compression_cases:
  "run_compression h a
     = Inr (a\<lparr>after_queue := after_queue a @
            [case run h (command a) of
               Completed returncode out err \<Rightarrow>
                 if returncode = 0 then OnSuccess
                 else OnError (''Ghostscript Error:\<newline>''
                               @ (case decode Ignore err of Inr s \<Rightarrow> s | Inl e \<Rightarrow> []))
             | LaunchFailed msg \<Rightarrow> OnError msg]\<rparr>)"
proof (cases "run h (command a)")
  case (Completed returncode out err)
  obtain s where "decode Ignore err = Inr s" using decode_ignore_total by blast
  with Completed show ?thesis by (simp add: run_compression_def)
next
  case (LaunchFailed msg)
  then show ?thesis by (simp add: run_compression_def)
qed

lemma on_compression_success_report:
  assumes "getsize h (input_pdf_path a) = Inr m" and "0 < m"
    and "getsize h (output_pdf_path a) = Inr n"
  shows "on_compression_success h a
    = Inr (a\<lparr>progress_running := False, progress_packed := False, button_enabled := True,
            status_text := ''Ready.'',
            dialogs := dialogs a @
              [ShowSuccessInfo (of_nat m / 1048576) (of_nat n / 1048576)
                 (100 - of_nat n / of_nat m * 100)]\<rparr>)"
  using assms by (simp add: on_compression_success_def Let_def)

lemma ten_four_report:
  "run_compression ten_four_host (running_app ''ebook'')
     = Inr ((running_app ''ebook'')\<lparr>after_queue := [OnSuccess]\<rparr>)
   \<and> deliver ten_four_host ((running_app ''ebook'')\<lparr>after_queue := [OnSuccess]\<rparr>)
     = Inr ((running_app ''ebook'')
             \<lparr>progress_running := False, progress_packed := False, button_enabled := True,
              status_text := ''Ready.'', dialogs := [ShowSuccessInfo 10 4 60]\<rparr>)"
  by (simp add: run_compression_def deliver_def on_compression_success_def Let_def
        ten_four_host_def bare_host_def job_files_def running_app_def)

section \<open>Properties\<close>

text \<open>
  Claim C1. For each of the four presets screen, ebook, printer and prepress, the argument
  vector built by \<^verbatim>\<open>run_compression\<close> starts with the helper path, ends with the input file,
  and has between them exactly one preset flag, \<^verbatim>\<open>-dPDFSETTINGS=/<preset>\<close> for the selected
  preset, together with the fixed flags \<^verbatim>\<open>-sDEVICE=pdfwrite\<close>,
  \<^verbatim>\<open>-dCompatibilityLevel=1.4\<close>, \<^verbatim>\<open>-dNOPAUSE\<close>, \<^verbatim>\<open>-dQUIET\<close>, \<^verbatim>\<open>-dBATCH\<close> and the output-file flag,
  whatever the preset is.
\<close>

theorem command_preset_and_fixed_flags:
  assumes "compression_level a \<in> set levels"
  shows "hd (command a) = ghostscript_path a
    \<and> last (command a) = Some (input_pdf_path a)
    \<and> filter is_preset_flag (butlast (tl (command a)))
          = [Some (''-dPDFSETTINGS=/'' @ compression_level a)]
    \<and> {Some ''-sDEVICE=pdfwrite'', Some ''-dCompatibilityLevel=1.4'', Some ''-dNOPAUSE'',
         Some ''-dQUIET'', Some ''-dBATCH'', Some (''-sOutputFile='' @ output_pdf_path a)}
          \<subseteq> set (butlast (tl (command a)))
    \<and> length (command a) = 9"
  by (simp add: command_def is_preset_flag_def)

theorem command_preset_and_fixed_flags_witness:
  "compression_level (running_app ''screen'') \<in> set levels
   \<and> hd (command (running_app ''screen'')) = Some ''C:/gs/bin/gswin64c.exe''
   \<and> last (command (running_app ''screen'')) = Some ''C:/docs/in.pdf''
   \<and> filter is_preset_flag (butlast (tl (command (running_app ''screen''))))
         = [Some ''-dPDFSETTINGS=/screen'']"
  using command_preset_and_fixed_flags [of "running_app ''screen''"]
  by (simp add: levels_def running_app_def)

text \<open>
  Claim C2 as stated: after a nonzero exit the reported diagnostic text is exactly the captured
  error stream, so that the bytes \<^verbatim>\<open>error: invalid page tree\<close> give the outcome
  \<^verbatim>\<open>Failure("error: invalid page tree")\<close>. The code puts \<^verbatim>\<open>Ghostscript Error:\<close> and a newline
  in front of the decoded stream.
\<close>

theorem failure_text_counterexample:
  "run page_tree_host (command (running_app ''ebook'')) = Completed 1 [] ''error: invalid page tree''
   \<and> run_compression page_tree_host (running_app ''ebook'')
       = Inr ((running_app ''ebook'')
                \<lparr>after_queue := [OnError ''Ghostscript Error:\<newline>error: invalid page tree'']\<rparr>)
   \<and> run_compression page_tree_host (running_app ''ebook'')
       \<noteq> Inr ((running_app ''ebook'')\<lparr>after_queue := [OnError ''error: invalid page tree'']\<rparr>)"
proof -
  have d: "decode Ignore ''error: invalid page tree'' = Inr ''error: invalid page tree''"
    by (rule decode_ascii) (simp add: byte_def)
  show ?thesis
    by (simp add: run_compression_def page_tree_host_def bare_host_def running_app_def d
          del: decode.simps)
qed

text \<open>
  Claim C2, amended. After every nonzero exit \<^verbatim>\<open>run_compression\<close> posts one error callback
  whose text is \<^verbatim>\<open>Ghostscript Error:\<close>, a newline, and the error stream decoded as UTF-8 with
  the undecodable bytes left out (not replaced); the decoding never raises, the decoded text
  is the stream with some bytes removed, and an ASCII stream is kept byte for byte.
\<close>

theorem nonzero_exit_reports_prefixed_stderr:
  assumes "run h (command a) = Completed returncode out err" and "returncode \<noteq> 0"
  shows "\<exists>text. decode Ignore err = Inr text
           \<and> run_compression h a
               = Inr (a\<lparr>after_queue := after_queue a @
                        [OnError (''Ghostscript Error:\<newline>'' @ text)]\<rparr>)
           \<and> subseq text err
           \<and> ((\<forall>c\<in>set err. byte c < 0x80) \<longrightarrow> text = err)"
proof -
  obtain s where t: "decode Ignore err = Inr s"
    using decode_ignore_total by blast
  have "subseq s err" using t by (rule decode_subseq)
  moreover have "(\<forall>c\<in>set err. byte c < 0x80) \<longrightarrow> s = err"
    using t decode_ascii [of err Ignore] by auto
  moreover have "run_compression h a
      = Inr (a\<lparr>after_queue := after_queue a @ [OnError (''Ghostscript Error:\<newline>'' @ s)]\<rparr>)"
    using assms t by (simp add: run_compression_def)
  ultimately show ?thesis using t by blast
qed

theorem nonzero_exit_reports_prefixed_stderr_witness:
  "run page_tree_host (command (running_app ''ebook'')) = Completed 1 [] ''error: invalid page tree''
   \<and> (1::int) \<noteq> 0
   \<and> (\<exists>text. decode Ignore ''error: invalid page tree'' = Inr text
         \<and> run_compression page_tree_host (running_app ''ebook'')
             = Inr ((running_app ''ebook'')\<lparr>after_queue := after_queue (running_app ''ebook'') @
                      [OnError (''Ghostscript Error:\<newline>'' @ text)]\<rparr>)
         \<and> text = ''error: invalid page tree'')"
proof -
  have r: "run page_tree_host (command (running_app ''ebook''))
             = Completed 1 [] ''error: invalid page tree''"
    by (simp add: page_tree_host_def bare_host_def)
  have n: "(1::int) \<noteq> 0" by simp
  have a: "\<forall>c\<in>set ''error: invalid page tree''. byte c < 0x80" by (simp add: byte_def)
  from nonzero_exit_reports_prefixed_stderr [OF r n] a r show ?thesis by auto
qed

text \<open>
  Claim C3 as stated: a job start whose input path points to a file that does not exist is
  rejected and creates no background thread. \<^verbatim>\<open>start_compression_thread\<close> never asks the file
  system: with a helper and a save location the thread is started.
\<close>

theorem missing_input_file_counterexample:
  "\<not> path_exists bare_host ''C:/docs/in.pdf''
   \<and> getsize bare_host ''C:/docs/in.pdf'' = Inl FileNotFoundError
   \<and> start_compression_thread ''C:/docs/out.pdf'' (selected_app ''C:/docs/in.pdf'')
       = running_app ''ebook''
   \<and> threads_started (running_app ''ebook'') = 1
   \<and> dialogs (running_app ''ebook'') = []"
  by (simp add: bare_host_def start_compression_thread_def selected_app_def running_app_def)

text \<open>
  Claim C3, amended. A job start with no input path selected (the empty string) is rejected
  with an error dialog, starts no thread and posts nothing; a thread is started exactly when
  an input path is selected, the helper path is present and a save location was given,
  whether or not the input file exists.
\<close>

theorem start_rejects_missing_selection:
  "(input_pdf_path a = [] \<longrightarrow>
      start_compression_thread output_path a
        = a\<lparr>dialogs := dialogs a @
              [ShowError ''Error'' ''Please select an input PDF file first.'']\<rparr>)
   \<and> threads_started (start_compression_thread output_path a)
       = (if input_pdf_path a = [] \<or> ghostscript_path a = None \<or> ghostscript_path a = Some []
             \<or> output_path = []
          then threads_started a else Suc (threads_started a))
   \<and> after_queue (start_compression_thread output_path a) = after_queue a"
  by (simp add: start_compression_thread_def show_ghostscript_warning_def)

theorem start_rejects_missing_selection_witness:
  "input_pdf_path (selected_app []) = []
   \<and> start_compression_thread ''C:/docs/out.pdf'' (selected_app [])
       = (selected_app [])\<lparr>dialogs :=
            [ShowError ''Error'' ''Please select an input PDF file first.'']\<rparr>
   \<and> threads_started (start_compression_thread ''C:/docs/out.pdf'' (selected_app [])) = 0"
  using start_rejects_missing_selection [of "selected_app []" "''C:/docs/out.pdf''"]
  by (simp add: selected_app_def)

text \<open>
  Claim C4, at an input where the code departs from it: \<^verbatim>\<open>gswin64c.exe\<close> is on the PATH and
  exists, in a directory whose name \<^verbatim>\<open>where\<close> prints with a byte that is not UTF-8. The claim
  has the locator return this path. The strict \<^verbatim>\<open>decode()\<close> of the output raises
  \<^verbatim>\<open>UnicodeDecodeError\<close>, which the \<^verbatim>\<open>except\<close> clause of the probe does not catch: the locator
  returns nothing and the exception leaves \<^verbatim>\<open>find_ghostscript\<close>. (A helper that is on the PATH in
  two places is not found either, see \<open>twice_host_locator\<close>.)
\<close>

theorem locator_undecodable_path_raises:
  "check_output accented_path_host [''where'', ''gswin64c.exe'']
     = Inr (accented_path @ [CHR 0x0D, CHR 0x0A])
   \<and> path_exists accented_path_host accented_path
   \<and> snd (find_ghostscript accented_path_host) = Inl UnicodeDecodeError"
  by (simp add: find_ghostscript_def accented_path_host_def bare_host_def accented_path_def
        gs_names_def where_path_def strip_def is_space_def byte_def utf8_first_def
        is_continuation_def caught_def)

text \<open>
  Claim C5 as stated: the locator never raises, and a probe that fails with permission denied
  counts as "candidate not found". A \<^verbatim>\<open>PermissionError\<close> of the lookup command is not one of the
  two exceptions of the \<^verbatim>\<open>except\<close> clause and leaves \<^verbatim>\<open>find_ghostscript\<close>.
\<close>

theorem locator_permission_counterexample:
  "check_output permission_denied_host [''where'', ''gswin64c.exe''] = Inl PermissionError
   \<and> snd (find_ghostscript permission_denied_host) = Inl PermissionError"
  by (simp add: find_ghostscript_def permission_denied_host_def bare_host_def
        gs_names_def where_path_def caught_def)

text \<open>
  Claim C5, amended. An exception of the lookup command that is \<^verbatim>\<open>CalledProcessError\<close> (the
  lookup fails) or \<^verbatim>\<open>FileNotFoundError\<close> (the lookup command is missing) is swallowed and
  counts as "candidate not found", like a printed path that does not exist: the search goes
  on with the next candidate, a later candidate is still found, and when no candidate is
  found the result is that of the directory scan, absence being the value \<open>None\<close>. Any other
  exception of the lookup command, permission denied for one, leaves the locator as soon as
  the search reaches its candidate. On a platform other than win32 the locator never raises.
  An exception that leaves the locator was raised by a probe and is neither of the two.
\<close>

theorem locator_swallows_caught_propagates_others:
  "(platform h \<noteq> ''win32'' \<longrightarrow> (\<exists>r. snd (find_ghostscript h) = Inr r))
   \<and> (platform h = ''win32'' \<and> (\<forall>name\<in>set gs_names. probe_not_found h name) \<longrightarrow>
        snd (find_ghostscript h) = Inr (first_of (dir_matches h)))
   \<and> (\<forall>pre name post out path.
         platform h = ''win32'' \<and> gs_names = pre @ name # post
         \<and> (\<forall>n\<in>set pre. probe_not_found h n)
         \<and> check_output h [''where'', name] = Inr out
         \<and> decode Strict (strip out) = Inr path \<and> path_exists h path \<longrightarrow>
         snd (find_ghostscript h) = Inr (Some path))
   \<and> (\<forall>pre name post e.
         platform h = ''win32'' \<and> gs_names = pre @ name # post
         \<and> (\<forall>n\<in>set pre. probe_not_found h n)
         \<and> check_output h [''where'', name] = Inl e \<and> \<not> caught e \<longrightarrow>
         snd (find_ghostscript h) = Inl e)
   \<and> (\<forall>e. snd (find_ghostscript h) = Inl e \<longrightarrow>
          \<not> caught e \<and> platform h = ''win32''
          \<and> (\<exists>name\<in>set gs_names. where_path h name = Inl e))
   \<and> (\<forall>e. caught e \<longleftrightarrow> e = CalledProcessError \<or> e = FileNotFoundError)"
proof (intro conjI allI impI)
  assume "platform h \<noteq> ''win32''"
  then show "\<exists>r. snd (find_ghostscript h) = Inr r"
    by (simp add: find_ghostscript_def path_loop_other_platform)
next
  assume a: "platform h = ''win32'' \<and> (\<forall>name\<in>set gs_names. probe_not_found h name)"
  then have "snd (path_loop h (gs_names @ [])) = snd (path_loop h [])"
    by (intro path_loop_skips) simp_all
  then have "snd (path_loop h gs_names) = Inr None" by simp
  then show "snd (find_ghostscript h) = Inr (first_of (dir_matches h))"
    by (simp add: find_ghostscript_snd)
next
  fix pre name post out path
  assume a: "platform h = ''win32'' \<and> gs_names = pre @ name # post
         \<and> (\<forall>n\<in>set pre. probe_not_found h n)
         \<and> check_output h [''where'', name] = Inr out
         \<and> decode Strict (strip out) = Inr path \<and> path_exists h path"
  then have "snd (path_loop h (pre @ name # post)) = snd (path_loop h (name # post))"
    by (intro path_loop_skips) simp_all
  also from a have "\<dots> = Inr (Some path)"
    by (intro path_loop_found [where out = out]) simp_all
  finally show "snd (find_ghostscript h) = Inr (Some path)"
    using a by (simp add: find_ghostscript_snd)
next
  fix pre name post e
  assume a: "platform h = ''win32'' \<and> gs_names = pre @ name # post
         \<and> (\<forall>n\<in>set pre. probe_not_found h n)
         \<and> check_output h [''where'', name] = Inl e \<and> \<not> caught e"
  then have "snd (path_loop h (pre @ name # post)) = snd (path_loop h (name # post))"
    by (intro path_loop_skips) simp_all
  also from a have "\<dots> = Inl e"
    by (intro path_loop_propagates) simp_all
  finally show "snd (find_ghostscript h) = Inl e"
    using a by (simp add: find_ghostscript_snd)
next
  fix e assume e: "snd (find_ghostscript h) = Inl e"
  from find_ghostscript_raises [OF e] show "\<not> caught e" by simp
  from find_ghostscript_raises [OF e] show "platform h = ''win32''" by simp
  from find_ghostscript_raises [OF e] show "\<exists>name\<in>set gs_names. where_path h name = Inl e"
    by simp
next
  fix e show "caught e \<longleftrightarrow> e = CalledProcessError \<or> e = FileNotFoundError"
    by (simp add: caught_def)
qed

theorem locator_swallows_caught_propagates_others_witness:
  "platform second_denied_host = ''win32''
   \<and> gs_names = [''gswin64c.exe''] @ ''gswin32c.exe'' # [''gs.exe'']
   \<and> probe_not_found second_denied_host ''gswin64c.exe''
   \<and> check_output second_denied_host [''where'', ''gswin32c.exe''] = Inl PermissionError
   \<and> \<not> caught PermissionError
   \<and> snd (find_ghostscript second_denied_host) = Inl PermissionError
   \<and> platform no_where_host = ''win32''
   \<and> check_output no_where_host [''where'', ''gswin64c.exe''] = Inl FileNotFoundError
   \<and> probe_not_found no_where_host ''gswin64c.exe''
   \<and> probe_not_found no_where_host ''gswin32c.exe''
   \<and> probe_not_found no_where_host ''gs.exe''
   \<and> snd (find_ghostscript no_where_host)
       = Inr (Some (gs_home @ [CHR 0x5C] @ ''gswin64c.exe''))"
proof -
  note t = locator_swallows_caught_propagates_others
  have p: "platform second_denied_host = ''win32''"
    by (simp add: second_denied_host_def bare_host_def)
  have g: "gs_names = [''gswin64c.exe''] @ ''gswin32c.exe'' # [''gs.exe'']"
    by (simp add: gs_names_def)
  have n: "probe_not_found second_denied_host ''gswin64c.exe''"
    by (simp add: probe_not_found_def second_denied_host_def caught_def)
  have c: "check_output second_denied_host [''where'', ''gswin32c.exe''] = Inl PermissionError"
    by (simp add: second_denied_host_def)
  have u: "\<not> caught PermissionError" by (simp add: caught_def)
  from n have b: "\<forall>n\<in>set [''gswin64c.exe'']. probe_not_found second_denied_host n" by simp
  from t [of second_denied_host]
  have "\<forall>pre name post e.
         platform second_denied_host = ''win32'' \<and> gs_names = pre @ name # post
         \<and> (\<forall>n\<in>set pre. probe_not_found second_denied_host n)
         \<and> check_output second_denied_host [''where'', name] = Inl e \<and> \<not> caught e \<longrightarrow>
         snd (find_ghostscript second_denied_host) = Inl e"
    by (rule conjunct2 [THEN conjunct2, THEN conjunct2, THEN conjunct1])
  then have "platform second_denied_host = ''win32''
         \<and> gs_names = [''gswin64c.exe''] @ ''gswin32c.exe'' # [''gs.exe'']
         \<and> (\<forall>n\<in>set [''gswin64c.exe'']. probe_not_found second_denied_host n)
         \<and> check_output second_denied_host [''where'', ''gswin32c.exe''] = Inl PermissionError
         \<and> \<not> caught PermissionError \<longrightarrow>
         snd (find_ghostscript second_denied_host) = Inl PermissionError"
    by (elim allE)
  with p g b c u have r1: "snd (find_ghostscript second_denied_host) = Inl PermissionError"
    by (elim impE) (intro conjI)
  have q: "platform no_where_host = ''win32''"
    by (simp add: no_where_host_def installed_host_def bare_host_def)
  have k: "check_output no_where_host [''where'', ''gswin64c.exe''] = Inl FileNotFoundError"
    by (simp add: no_where_host_def)
  have m: "probe_not_found no_where_host name" for name
    by (simp add: probe_not_found_def no_where_host_def caught_def)
  then have a: "\<forall>name\<in>set gs_names. probe_not_found no_where_host name" by simp
  from t [of no_where_host]
  have "platform no_where_host = ''win32''
        \<and> (\<forall>name\<in>set gs_names. probe_not_found no_where_host name) \<longrightarrow>
        snd (find_ghostscript no_where_host) = Inr (first_of (dir_matches no_where_host))"
    by (rule conjunct2 [THEN conjunct1])
  with q a have "snd (find_ghostscript no_where_host)
      = Inr (first_of (dir_matches no_where_host))"
    by (elim impE) (intro conjI)
  then have r2: "snd (find_ghostscript no_where_host)
      = Inr (Some (gs_home @ [CHR 0x5C] @ ''gswin64c.exe''))"
    unfolding no_where_host_def dir_matches_check_output installed_host_dir_matches
    by (simp add: first_of_def)
  from p g n c u r1 q k m [of "''gswin64c.exe''"] m [of "''gswin32c.exe''"] m [of "''gs.exe''"] r2
  show ?thesis by (intro conjI)
qed

text \<open>
  Claim C10. On every platform other than win32 the locator runs no lookup command at all; its
  result is that of walking the directory \<^verbatim>\<open>gs\<close> under the \<^verbatim>\<open>ProgramFiles\<close> root: a returned path
  joins a walked directory with one of the candidate names that the walk lists among its
  files, and the result is \<open>None\<close> exactly when the directory is missing or lists no
  candidate name.
\<close>

theorem locator_off_win32_scans_only:
  assumes "platform h \<noteq> ''win32''"
  shows "fst (find_ghostscript h) = []
    \<and> snd (find_ghostscript h) = Inr (first_of (dir_matches h))
    \<and> gs_dirs h = [path_join h (program_files h) ''gs'']
    \<and> (\<forall>p. snd (find_ghostscript h) = Inr (Some p) \<longrightarrow>
          isdir h (path_join h (program_files h) ''gs'')
          \<and> (\<exists>(dirpath, dirnames, files)\<in>set (walk h (path_join h (program_files h) ''gs'')).
                \<exists>name\<in>set gs_names. name \<in> set files \<and> p = path_join h dirpath name))
    \<and> (snd (find_ghostscript h) = Inr None \<longleftrightarrow>
          (isdir h (path_join h (program_files h) ''gs'') \<longrightarrow>
             (\<forall>(dirpath, dirnames, files)\<in>set (walk h (path_join h (program_files h) ''gs'')).
                \<forall>name\<in>set gs_names. name \<notin> set files)))"
proof -
  let ?d = "path_join h (program_files h) ''gs''"
  have fg: "find_ghostscript h = ([], Inr (first_of (dir_matches h)))"
    using assms by (rule find_ghostscript_other_platform)
  have dm: "dir_matches h = (if isdir h ?d then walk_matches h (walk h ?d) else [])"
    by (simp add: dir_matches_def gs_dirs_def)
  have some: "isdir h ?d \<and> (\<exists>(dirpath, dirnames, files)\<in>set (walk h ?d).
                \<exists>name\<in>set gs_names. name \<in> set files \<and> p = path_join h dirpath name)"
    if "snd (find_ghostscript h) = Inr (Some p)" for p
  proof -
    from that fg have "first_of (dir_matches h) = Some p" by simp
    then have "p \<in> set (dir_matches h)" by (simp add: first_of_Some)
    then show ?thesis
      by (simp add: dm set_walk_matches split: if_splits)
  qed
  have none: "snd (find_ghostscript h) = Inr None \<longleftrightarrow>
          (isdir h ?d \<longrightarrow> (\<forall>(dirpath, dirnames, files)\<in>set (walk h ?d).
                \<forall>name\<in>set gs_names. name \<notin> set files))"
  proof -
    have "snd (find_ghostscript h) = Inr None \<longleftrightarrow> set (dir_matches h) = {}"
      by (simp add: fg first_of_None)
    also have "\<dots> \<longleftrightarrow> (\<forall>p. p \<notin> set (dir_matches h))" by auto
    also have "\<dots> \<longleftrightarrow> (isdir h ?d \<longrightarrow> (\<forall>(dirpath, dirnames, files)\<in>set (walk h ?d).
                \<forall>name\<in>set gs_names. name \<notin> set files))"
      by (simp add: dm set_walk_matches) fast
    finally show ?thesis .
  qed
  from fg some none show ?thesis by (simp add: gs_dirs_def)
qed

theorem locator_off_win32_scans_only_witness:
  "platform posix_host \<noteq> ''win32''
   \<and> snd (find_ghostscript installed_host) = Inr (Some ''C:/bin/gswin32c.exe'')
   \<and> find_ghostscript posix_host = ([], Inr (Some (gs_home @ [CHR 0x5C] @ ''gswin64c.exe'')))"
proof -
  have p: "platform posix_host \<noteq> ''win32''" by (simp add: posix_host_def)
  from locator_off_win32_scans_only [OF p]
  have "fst (find_ghostscript posix_host) = []"
    and "snd (find_ghostscript posix_host) = Inr (first_of (dir_matches posix_host))"
    by simp_all
  then have "find_ghostscript posix_host = ([], Inr (Some (gs_home @ [CHR 0x5C] @ ''gswin64c.exe'')))"
    unfolding posix_host_dir_matches by (simp add: first_of_def prod_eq_iff)
  with p installed_host_locator show ?thesis by (intro conjI)
qed

text \<open>
  Claim C6. On every path through \<^verbatim>\<open>run_compression\<close> (zero exit, nonzero exit, launch
  failure) exactly one callback is posted to the event queue of the controlling thread, the
  success callback exactly when the process exited with code zero; \<^verbatim>\<open>run_compression\<close> itself
  changes nothing else of the application state, so the widgets are only touched by the
  posted callback.
\<close>

theorem run_compression_posts_one_outcome:
  "\<exists>cb. run_compression h a = Inr (a\<lparr>after_queue := after_queue a @ [cb]\<rparr>)
         \<and> (cb = OnSuccess \<longleftrightarrow> (\<exists>out err. run h (command a) = Completed 0 out err))
         \<and> (\<forall>msg. run h (command a) = LaunchFailed msg \<longrightarrow> cb = OnError msg)
         \<and> (\<forall>returncode out err.
               run h (command a) = Completed returncode out err \<and> returncode \<noteq> 0 \<longrightarrow>
               (\<exists>s. cb = OnError (''Ghostscript Error:\<newline>'' @ s)))"
proof -
  define cb where "cb =
    (case run h (command a) of
       Completed returncode out err \<Rightarrow>
         if returncode = 0 then OnSuccess
         else OnError (''Ghostscript Error:\<newline>''
                       @ (case decode Ignore err of Inr s \<Rightarrow> s | Inl e \<Rightarrow> []))
     | LaunchFailed msg \<Rightarrow> OnError msg)"
  have "run_compression h a = Inr (a\<lparr>after_queue := after_queue a @ [cb]\<rparr>)"
    unfolding cb_def by (rule run_compression_cases)
  moreover have "cb = OnSuccess \<longleftrightarrow> (\<exists>out err. run h (command a) = Completed 0 out err)"
    by (cases "run h (command a)") (simp_all add: cb_def)
  moreover have "\<forall>msg. run h (command a) = LaunchFailed msg \<longrightarrow> cb = OnError msg"
    by (simp add: cb_def)
  moreover have "\<forall>returncode out err.
      run h (command a) = Completed returncode out err \<and> returncode \<noteq> 0 \<longrightarrow>
      (\<exists>s. cb = OnError (''Ghostscript Error:\<newline>'' @ s))"
    by (simp add: cb_def)
  ultimately show ?thesis by blast
qed

theorem run_compression_posts_one_outcome_witness:
  "run bare_host (command (running_app ''ebook''))
     = LaunchFailed ''[WinError 2] The system cannot find the file specified''
   \<and> run_compression bare_host (running_app ''ebook'')
       = Inr ((running_app ''ebook'')
               \<lparr>after_queue :=
                  [OnError ''[WinError 2] The system cannot find the file specified'']\<rparr>)"
proof -
  have r: "run bare_host (command (running_app ''ebook''))
             = LaunchFailed ''[WinError 2] The system cannot find the file specified''"
    by (simp add: bare_host_def)
  have q: "after_queue (running_app ''ebook'') = []" by (simp add: running_app_def)
  from run_compression_posts_one_outcome [of bare_host "running_app ''ebook''"]
  obtain cb where cb: "run_compression bare_host (running_app ''ebook'')
        = Inr ((running_app ''ebook'')\<lparr>after_queue := after_queue (running_app ''ebook'') @ [cb]\<rparr>)
      \<and> (cb = OnSuccess \<longleftrightarrow>
           (\<exists>out err. run bare_host (command (running_app ''ebook'')) = Completed 0 out err))
      \<and> (\<forall>msg. run bare_host (command (running_app ''ebook'')) = LaunchFailed msg
             \<longrightarrow> cb = OnError msg)
      \<and> (\<forall>returncode out err.
            run bare_host (command (running_app ''ebook'')) = Completed returncode out err
            \<and> returncode \<noteq> 0 \<longrightarrow>
            (\<exists>s. cb = OnError (''Ghostscript Error:\<newline>'' @ s)))" ..
  from cb have "\<forall>msg. run bare_host (command (running_app ''ebook'')) = LaunchFailed msg
             \<longrightarrow> cb = OnError msg"
    by (rule conjunct2 [THEN conjunct2, THEN conjunct1])
  then have "run bare_host (command (running_app ''ebook''))
        = LaunchFailed ''[WinError 2] The system cannot find the file specified''
      \<longrightarrow> cb = OnError ''[WinError 2] The system cannot find the file specified''"
    by (rule spec)
  from this r have c: "cb = OnError ''[WinError 2] The system cannot find the file specified''"
    by (rule mp)
  from cb have "run_compression bare_host (running_app ''ebook'')
        = Inr ((running_app ''ebook'')\<lparr>after_queue := after_queue (running_app ''ebook'') @ [cb]\<rparr>)"
    by (rule conjunct1)
  then have "run_compression bare_host (running_app ''ebook'')
       = Inr ((running_app ''ebook'')
               \<lparr>after_queue :=
                  [OnError ''[WinError 2] The system cannot find the file specified'']\<rparr>)"
    unfolding c q by simp
  with r show ?thesis by (intro conjI)
qed

text \<open>
  Claim C7, at an input where the code departs from it: Ghostscript exits with code zero on
  an input file of 0 bytes. The success callback is posted, and \<^verbatim>\<open>on_compression_success\<close>
  raises \<^verbatim>\<open>ZeroDivisionError\<close> at the unguarded division before it shows any report: no sizes
  are reported for this job. (For the sizes 10 MiB and 4 MiB the report is 10, 4 and 60, see
  \<open>ten_four_report\<close>.)
\<close>

theorem zero_byte_original_no_success_report:
  "run empty_input_host (command (running_app ''ebook'')) = Completed 0 [] []
   \<and> getsize empty_input_host (input_pdf_path (running_app ''ebook'')) = Inr 0
   \<and> getsize empty_input_host (output_pdf_path (running_app ''ebook'')) = Inr 581
   \<and> run_compression empty_input_host (running_app ''ebook'')
       = Inr ((running_app ''ebook'')\<lparr>after_queue := [OnSuccess]\<rparr>)
   \<and> deliver empty_input_host ((running_app ''ebook'')\<lparr>after_queue := [OnSuccess]\<rparr>)
       = Inl (ZeroDivisionError,
              (running_app ''ebook'')
                \<lparr>progress_running := False, progress_packed := False, button_enabled := True,
                 status_text := ''Compression successful!''\<rparr>)"
  by (simp add: run_compression_def deliver_def on_compression_success_def Let_def
        empty_input_host_def bare_host_def job_files_def running_app_def)

text \<open>
  Claim C8 as stated: every error path restores the idle status text. After the error
  callback the status text is \<^verbatim>\<open>An error occurred.\<close>, which is neither of the idle texts nor
  the text shown before the job.
\<close>

theorem error_status_counterexample:
  "run bare_host (command (running_app ''ebook''))
     = LaunchFailed ''[WinError 2] The system cannot find the file specified''
   \<and> run_compression bare_host (running_app ''ebook'')
       = Inr ((running_app ''ebook'')
               \<lparr>after_queue :=
                  [OnError ''[WinError 2] The system cannot find the file specified'']\<rparr>)
   \<and> map_sum id status_text
        (deliver bare_host
           ((running_app ''ebook'')
              \<lparr>after_queue :=
                 [OnError ''[WinError 2] The system cannot find the file specified'']\<rparr>))
       = Inr ''An error occurred.''
   \<and> ''An error occurred.'' \<noteq> ''Ready.''
   \<and> ''An error occurred.'' \<noteq> ''Ready. Select a file to begin.''
   \<and> ''An error occurred.'' \<noteq> status_text (selected_app ''C:/docs/in.pdf'')"
  by (simp add: run_compression_def deliver_def on_compression_error_def bare_host_def
        running_app_def selected_app_def)

text \<open>
  Claim C8, amended. For every error outcome (process failure or launch failure) the error
  path stops and hides the progress bar, enables the trigger control again, sets the status
  text to \<^verbatim>\<open>An error occurred.\<close> and shows one error dialog with the diagnostic text; it
  returns normally, keeps the selected input and the helper path, and a new job can be
  started from the resulting state.
\<close>

theorem error_path_reenables_trigger:
  assumes "run h (command a) = LaunchFailed msg
           \<or> (\<exists>returncode out err. run h (command a) = Completed returncode out err
                 \<and> returncode \<noteq> 0)"
    and "after_queue a = []"
  shows "\<exists>a1 error_message a2.
           run_compression h a = Inr a1 \<and> after_queue a1 = [OnError error_message]
           \<and> deliver h a1 = Inr a2
           \<and> a2 = on_compression_error error_message a
           \<and> button_enabled a2 \<and> \<not> progress_running a2 \<and> \<not> progress_packed a2
           \<and> status_text a2 = ''An error occurred.''
           \<and> dialogs a2 = dialogs a @
                [ShowError ''Compression Failed''
                   (''An error occurred during compression:\<newline>\<newline>'' @ error_message)]
           \<and> input_pdf_path a2 = input_pdf_path a
           \<and> ghostscript_path a2 = ghostscript_path a
           \<and> after_queue a2 = []
           \<and> (\<forall>output_path.
                 input_pdf_path a \<noteq> [] \<and> ghostscript_path a \<noteq> None
                 \<and> ghostscript_path a \<noteq> Some [] \<and> output_path \<noteq> [] \<longrightarrow>
                 threads_started (start_compression_thread output_path a2)
                   = Suc (threads_started a))"
proof -
  from assms(1) obtain error_message where
    r: "run_compression h a = Inr (a\<lparr>after_queue := after_queue a @ [OnError error_message]\<rparr>)"
  proof
    assume "run h (command a) = LaunchFailed msg"
    then have "run_compression h a = Inr (a\<lparr>after_queue := after_queue a @ [OnError msg]\<rparr>)"
      by (simp add: run_compression_def)
    then show ?thesis by (rule that)
  next
    assume "\<exists>returncode out err. run h (command a) = Completed returncode out err
              \<and> returncode \<noteq> 0"
    then obtain returncode out err
      where c: "run h (command a) = Completed returncode out err" "returncode \<noteq> 0"
      by blast
    obtain s where "decode Ignore err = Inr s" using decode_ignore_total by blast
    with c have "run_compression h a
        = Inr (a\<lparr>after_queue := after_queue a @ [OnError (''Ghostscript Error:\<newline>'' @ s)]\<rparr>)"
      by (simp add: run_compression_def)
    then show ?thesis by (rule that)
  qed
  let ?a1 = "a\<lparr>after_queue := [OnError error_message]\<rparr>"
  from r assms(2) have r1: "run_compression h a = Inr ?a1" by simp
  have d: "deliver h ?a1 = Inr (on_compression_error error_message a)"
    using assms(2) by (simp add: deliver_def on_compression_error_def)
  show ?thesis
    apply (rule exI [of _ ?a1])
    apply (rule exI [of _ error_message])
    apply (rule exI [of _ "on_compression_error error_message a"])
    using r1 d assms(2)
    apply (simp add: on_compression_error_def start_compression_thread_def)
    done
qed

theorem error_path_reenables_trigger_witness:
  "run page_tree_host (command (running_app ''ebook'')) = Completed 1 [] ''error: invalid page tree''
   \<and> after_queue (running_app ''ebook'') = []
   \<and> (\<exists>a1 error_message a2.
         run_compression page_tree_host (running_app ''ebook'') = Inr a1
         \<and> after_queue a1 = [OnError error_message]
         \<and> deliver page_tree_host a1 = Inr a2
         \<and> button_enabled a2
         \<and> status_text a2 = ''An error occurred.''
         \<and> threads_started (start_compression_thread ''C:/docs/out2.pdf'' a2) = 2)"
proof -
  have r: "run page_tree_host (command (running_app ''ebook''))
             = Completed 1 [] ''error: invalid page tree''"
    by (simp add: page_tree_host_def bare_host_def)
  have q: "after_queue (running_app ''ebook'') = []" by (simp add: running_app_def)
  have h: "run page_tree_host (command (running_app ''ebook'')) = LaunchFailed []
           \<or> (\<exists>returncode out err.
                 run page_tree_host (command (running_app ''ebook'')) = Completed returncode out err
                 \<and> returncode \<noteq> 0)"
    using r by simp
  from error_path_reenables_trigger [OF h q]
  obtain a1 error_message a2 where
    e: "run_compression page_tree_host (running_app ''ebook'') = Inr a1"
       "after_queue a1 = [OnError error_message]"
       "deliver page_tree_host a1 = Inr a2"
       "button_enabled a2" "status_text a2 = ''An error occurred.''"
       "\<forall>output_path.
          input_pdf_path (running_app ''ebook'') \<noteq> []
          \<and> ghostscript_path (running_app ''ebook'') \<noteq> None
          \<and> ghostscript_path (running_app ''ebook'') \<noteq> Some [] \<and> output_path \<noteq> [] \<longrightarrow>
          threads_started (start_compression_thread output_path a2)
            = Suc (threads_started (running_app ''ebook''))"
    by (elim exE conjE)
  from e(6) have "threads_started (start_compression_thread ''C:/docs/out2.pdf'' a2) = 2"
    by (simp add: running_app_def)
  with e(1-5) r q show ?thesis by blast
qed

text \<open>
  Claim C9. If the process exits with code zero and the input file has 0 bytes when the
  success callback runs, the callback does not complete: it raises before any success dialog
  is shown, and the exception is \<^verbatim>\<open>ZeroDivisionError\<close>, from the unguarded division by the
  original size, whenever the size of the output file can be read.
\<close>

theorem zero_byte_original_division_by_zero:
  assumes "run h (command a) = Completed 0 out err"
    and "getsize h (input_pdf_path a) = Inr 0"
    and "after_queue a = []"
  shows "\<exists>a1. run_compression h a = Inr a1 \<and> after_queue a1 = [OnSuccess]
           \<and> (\<exists>e a2. deliver h a1 = Inl (e, a2)
                 \<and> dialogs a2 = dialogs a
                 \<and> (\<forall>n. getsize h (output_pdf_path a) = Inr n \<longrightarrow> e = ZeroDivisionError))"
proof -
  let ?a1 = "a\<lparr>after_queue := [OnSuccess]\<rparr>"
  have r: "run_compression h a = Inr ?a1"
    using assms(1,3) by (simp add: run_compression_def)
  have "\<exists>e a2. deliver h ?a1 = Inl (e, a2) \<and> dialogs a2 = dialogs a
          \<and> (\<forall>n. getsize h (output_pdf_path a) = Inr n \<longrightarrow> e = ZeroDivisionError)"
    using assms(2)
    by (cases "getsize h (output_pdf_path a)")
       (simp_all add: deliver_def on_compression_success_def Let_def)
  with r show ?thesis by simp
qed

theorem zero_byte_original_division_by_zero_witness:
  "run empty_input_host (command (running_app ''ebook'')) = Completed 0 [] []
   \<and> getsize empty_input_host (input_pdf_path (running_app ''ebook'')) = Inr 0
   \<and> after_queue (running_app ''ebook'') = []
   \<and> (\<exists>a1. run_compression empty_input_host (running_app ''ebook'') = Inr a1
         \<and> after_queue a1 = [OnSuccess]
         \<and> (\<exists>e a2. deliver empty_input_host a1 = Inl (e, a2)
               \<and> dialogs a2 = dialogs (running_app ''ebook'')
               \<and> (\<forall>n. getsize empty_input_host (output_pdf_path (running_app ''ebook'')) = Inr n
                      \<longrightarrow> e = ZeroDivisionError)))"
proof -
  have r: "run empty_input_host (command (running_app ''ebook'')) = Completed 0 [] []"
    by (simp add: empty_input_host_def bare_host_def)
  have g: "getsize empty_input_host (input_pdf_path (running_app ''ebook'')) = Inr 0"
    by (simp add: empty_input_host_def bare_host_def job_files_def running_app_def)
  have q: "after_queue (running_app ''ebook'') = []" by (simp add: running_app_def)
  from r g q zero_byte_original_division_by_zero [OF r g q] show ?thesis by (intro conjI)
qed

end
